theory Spec2Isabelle
  imports Main
begin

section \<open>Python values, truthiness and exceptions\<close>

text \<open>
  The program is dynamically typed and takes its configuration and the service's answers
  from JSON, so every value that comes from outside is a JSON value as Python's
  \<^verbatim>\<open>json\<close> module builds it: \<^verbatim>\<open>None\<close>, a bool, an int, a str, a list or a dict
  with str keys (kept as an association list in insertion order; a dict has no key twice).
  JSON numbers with a fraction are not modelled. A str is a \<open>string\<close>; its characters
  stand for the bytes of its UTF-8 text.
\<close>

datatype pyval =
    PNone
  | PBool bool
  | PInt int
  | PStr string
  | PList "pyval list"
  | PDict "(string \<times> pyval) list"

text \<open>\<^verbatim>\<open>if x:\<close> and \<^verbatim>\<open>not x\<close>.\<close>

fun truthy :: "pyval \<Rightarrow> bool" where
  "truthy PNone = False"
| "truthy (PBool b) = b"
| "truthy (PInt i) = (i \<noteq> 0)"
| "truthy (PStr s) = (s \<noteq> [])"
| "truthy (PList xs) = (xs \<noteq> [])"
| "truthy (PDict kvs) = (kvs \<noteq> [])"

text \<open>
  The exceptions the program can end with. \<open>Exception\<close> is the bare
  \<^verbatim>\<open>Exception(msg)\<close> that \<^verbatim>\<open>SpeechmaticsConfig.__init__\<close> raises,
  \<open>SpeechmaticsError\<close> the class the file declares; the others are raised by Python
  itself (\<open>ValueError\<close> covers \<^verbatim>\<open>json.JSONDecodeError\<close>, its subclass).
\<close>

datatype error =
    Exception string
  | SpeechmaticsError string
  | IOError
  | TypeError
  | AttributeError
  | KeyError
  | ValueError
  | UnboundLocalError

text \<open>\<^verbatim>\<open>v[k]\<close> for a str key \<open>k\<close>: only a dict can be indexed by a str.\<close>

definition getitem :: "pyval \<Rightarrow> string \<Rightarrow> error + pyval" where
  "getitem v k =
     (case v of
        PDict kvs \<Rightarrow> (case map_of kvs k of None \<Rightarrow> Inl KeyError | Some x \<Rightarrow> Inr x)
      | _ \<Rightarrow> Inl TypeError)"

text \<open>\<^verbatim>\<open>"{}".format(n)\<close> for an int: its decimal numeral.\<close>

definition digit_char :: "nat \<Rightarrow> char" where
  "digit_char d = char_of (48 + d)"

function str_nat :: "nat \<Rightarrow> string" where
  "str_nat n = (if n < 10 then [digit_char n] else str_nat (n div 10) @ [digit_char (n mod 10)])"
  by pat_completeness auto
termination
  by (relation "measure id") auto

definition str_int :: "int \<Rightarrow> string" where
  "str_int i = (if i < 0 then CHR ''-'' # str_nat (nat (- i)) else str_nat (nat i))"

section \<open>The world outside the program\<close>

text \<open>
  What the run reads from outside is a parameter: which files \<^verbatim>\<open>open\<close> can open, what
  \<^verbatim>\<open>json.load\<close> reads from an opened file (\<open>None\<close>: it does not hold JSON), and the
  answers of the service: one to the POST, the \<open>i\<close>-th answer to a job-details GET for
  every \<open>i\<close>, one to the output GET. An answer is its status code and its body. Of the
  body of the first two the program reads only \<^verbatim>\<open>json.loads(request.text)\<close>, so the
  body is what the text parses to (\<open>None\<close>: it is not JSON); of the answer to the output
  GET it reads \<^verbatim>\<open>request.text\<close>, so the body is the text. The transport is taken to
  deliver an answer to every request.
\<close>

record 'a response =
  status_code :: int
  body :: 'a

record env =
  can_open :: "pyval \<Rightarrow> bool"
  file_json :: "pyval \<Rightarrow> pyval option"
  post_resp :: "pyval option response"
  details_resp :: "nat \<Rightarrow> pyval option response"
  output_resp :: "string response"

text \<open>
  A URL is kept in the parts \<^verbatim>\<open>"".join\<close> puts together: the base, the user id, the job
  (the value whose \<^verbatim>\<open>str\<close> is spliced in, when there is one) and the last segment.
\<close>

record url =
  url_base :: string
  url_user :: string
  url_job :: "pyval option"
  url_tail :: string

text \<open>
  What the run does to the outside, in order: files opened and closed, requests sent,
  seconds slept. A POST carries its form fields, the files attached (field name and the
  handle, named by what was opened) and the query parameters.
\<close>

datatype event =
    Open pyval
  | Close pyval
  | HttpPost url "(string \<times> pyval) list" "(string \<times> pyval) list" "(string \<times> pyval) list"
  | HttpGet url "(string \<times> pyval) list"
  | Sleep int

record state =
  trace :: "event list"
  polls :: nat

definition init_state :: state where
  "init_state = \<lparr>trace = [], polls = 0\<rparr>"

text \<open>
  The handles that are open after a trace, when \<open>hs\<close> were open before it: every
  \<open>Open\<close> adds one and every \<open>Close\<close> takes one away.
\<close>

fun handles_after :: "pyval list \<Rightarrow> event list \<Rightarrow> pyval list" where
  "handles_after hs [] = hs"
| "handles_after hs (Open h # es) = handles_after (hs @ [h]) es"
| "handles_after hs (Close h # es) = handles_after (remove1 h hs) es"
| "handles_after hs (_ # es) = handles_after hs es"

definition open_handles :: "event list \<Rightarrow> pyval list" where
  "open_handles es = handles_after [] es"

text \<open>Statements run in sequence; an exception ends the sequence and keeps the state.\<close>

type_synonym 'a run = "state \<Rightarrow> (error + 'a) \<times> state"

definition returnE :: "'a \<Rightarrow> 'a run" where
  "returnE x s = (Inr x, s)"

definition raise :: "error \<Rightarrow> 'a run" where
  "raise e s = (Inl e, s)"

definition lift :: "error + 'a \<Rightarrow> 'a run" where
  "lift r s = (r, s)"

definition bindE :: "'a run \<Rightarrow> ('a \<Rightarrow> 'b run) \<Rightarrow> 'b run" where
  "bindE m f s = (case m s of (Inl e, s') \<Rightarrow> (Inl e, s') | (Inr x, s') \<Rightarrow> f x s')"

definition emit :: "event \<Rightarrow> unit run" where
  "emit ev s = (Inr (), s\<lparr>trace := trace s @ [ev]\<rparr>)"

text \<open>
  \<^verbatim>\<open>open(f, mode)\<close>: a str is a path and an int (a bool is one) a file descriptor;
  anything else is a \<^verbatim>\<open>TypeError\<close>. What cannot be opened is an \<^verbatim>\<open>IOError\<close>.
\<close>

definition openable :: "pyval \<Rightarrow> bool" where
  "openable v = (case v of PStr _ \<Rightarrow> True | PInt _ \<Rightarrow> True | PBool _ \<Rightarrow> True | _ \<Rightarrow> False)"

definition py_open :: "env \<Rightarrow> pyval \<Rightarrow> pyval run" where
  "py_open e f =
     (if \<not> openable f then raise TypeError
      else if \<not> can_open e f then raise IOError
      else bindE (emit (Open f)) (\<lambda>_. returnE f))"

text \<open>\<^verbatim>\<open>json.load(f)\<close> and \<^verbatim>\<open>json.loads(request.text)\<close>, from what the text parses to.\<close>

definition loads :: "pyval option \<Rightarrow> error + pyval" where
  "loads parsed = (case parsed of None \<Rightarrow> Inl ValueError | Some v \<Rightarrow> Inr v)"

text \<open>
  \<^verbatim>\<open>time.sleep(w)\<close>: an int (or bool) number of seconds, not negative.
\<close>

definition time_sleep :: "pyval \<Rightarrow> unit run" where
  "time_sleep w =
     (case w of
        PInt n \<Rightarrow> if n < 0 then raise ValueError else emit (Sleep n)
      | PBool b \<Rightarrow> emit (Sleep (if b then 1 else 0))
      | _ \<Rightarrow> raise TypeError)"

section \<open>SpeechmaticsConfig\<close>

definition CONFIG_FILE :: string where
  "CONFIG_FILE = ''./keys/speechmatics_config.json''"

record config =
  userId :: pyval
  apiAuthToken :: pyval
  language :: pyval
  format :: pyval
  cfg_text :: pyval
  callback_url :: pyval
  notification :: pyval
  notification_email :: pyval

text \<open>A parameter with a default: \<open>None\<close> is an argument the call leaves out.\<close>

definition arg_or :: "pyval option \<Rightarrow> pyval \<Rightarrow> pyval" where
  "arg_or a d = (case a of None \<Rightarrow> d | Some v \<Rightarrow> v)"

text \<open>
  \<^verbatim>\<open>SpeechmaticsConfig.__init__(userId, apiAuthToken, language='en-US', format='txt',
  text=None, callback_url=None, notification=None, notification_email=None)\<close>.
\<close>

definition SpeechmaticsConfig_init ::
  "pyval \<Rightarrow> pyval \<Rightarrow> pyval option \<Rightarrow> pyval option \<Rightarrow> pyval option \<Rightarrow> pyval option \<Rightarrow>
   pyval option \<Rightarrow> pyval option \<Rightarrow> error + config" where
  "SpeechmaticsConfig_init uid tok lang fmt txt cb notif email =
     (if \<not> truthy uid then Inl (Exception ''required userId is empty'')
      else if \<not> truthy tok then Inl (Exception ''required apiAuthToken is empty'')
      else if \<not> truthy (arg_or lang (PStr ''en-US''))
        then Inl (Exception ''required language is empty'')
      else if \<not> truthy (arg_or fmt (PStr ''txt''))
        then Inl (Exception ''required format is empty'')
      else Inr \<lparr>userId = uid, apiAuthToken = tok,
                language = arg_or lang (PStr ''en-US''),
                format = arg_or fmt (PStr ''txt''),
                cfg_text = arg_or txt PNone,
                callback_url = arg_or cb PNone,
                notification = arg_or notif PNone,
                notification_email = arg_or email PNone\<rparr>)"

text \<open>
  \<^verbatim>\<open>cls(**loaded_json)\<close>: the value must be a dict, every key the name of a parameter,
  and the two parameters without a default must be there; otherwise the call itself is a
  \<^verbatim>\<open>TypeError\<close> and \<^verbatim>\<open>__init__\<close> does not run.
\<close>

definition param_names :: "string list" where
  "param_names = [''userId'', ''apiAuthToken'', ''language'', ''format'', ''text'',
                  ''callback_url'', ''notification'', ''notification_email'']"

definition call_kwargs :: "pyval \<Rightarrow> error + config" where
  "call_kwargs loaded_json =
     (case loaded_json of
        PDict kvs \<Rightarrow>
          if \<not> list_all (\<lambda>k. k \<in> set param_names) (map fst kvs) then Inl TypeError
          else (case map_of kvs ''userId'' of
                  None \<Rightarrow> Inl TypeError
                | Some uid \<Rightarrow>
                    (case map_of kvs ''apiAuthToken'' of
                       None \<Rightarrow> Inl TypeError
                     | Some tok \<Rightarrow>
                         SpeechmaticsConfig_init uid tok
                           (map_of kvs ''language'') (map_of kvs ''format'')
                           (map_of kvs ''text'') (map_of kvs ''callback_url'')
                           (map_of kvs ''notification'') (map_of kvs ''notification_email'')))
      | _ \<Rightarrow> Inl TypeError)"

text \<open>
  \<^verbatim>\<open>from_json\<close>: the \<^verbatim>\<open>with\<close> block closes the file when it is left, also when
  \<^verbatim>\<open>json.load\<close> raises.
\<close>

definition from_json :: "env \<Rightarrow> pyval \<Rightarrow> config run" where
  "from_json e file_name =
     bindE (py_open e file_name) (\<lambda>f.
     bindE (emit (Close f)) (\<lambda>_.
     bindE (lift (loads (file_json e f))) (\<lambda>loaded_json.
     lift (call_kwargs loaded_json))))"

section \<open>SpeechmaticsClient\<close>

record client =
  api_user_id :: pyval
  api_token :: pyval
  base_url :: string

definition SpeechmaticsClient :: "pyval \<Rightarrow> pyval \<Rightarrow> client" where
  "SpeechmaticsClient uid tok =
     \<lparr>api_user_id = uid, api_token = tok, base_url = ''https://api.speechmatics.com/v1.0''\<rparr>"

text \<open>
  \<^verbatim>\<open>"".join([self.base_url, '/user/', self.api_user_id, '/jobs/', ...])\<close>: every item
  must be a str, and the user id is the one item that may not be.
\<close>

definition join_url :: "client \<Rightarrow> pyval option \<Rightarrow> string \<Rightarrow> error + url" where
  "join_url c job tail =
     (case api_user_id c of
        PStr u \<Rightarrow> Inr \<lparr>url_base = base_url c, url_user = u, url_job = job, url_tail = tail\<rparr>
      | _ \<Rightarrow> Inl TypeError)"

text \<open>
  Lines 92 to 94: \<^verbatim>\<open>data = {"model": lang}\<close>, split at the first \<^verbatim>\<open>=\<close> when
  \<^verbatim>\<open>"=" in data['model']\<close>. The test is a substring test on a str, a membership test
  on a list and a key test on a dict, and a \<^verbatim>\<open>TypeError\<close> on anything else; only a
  str has \<^verbatim>\<open>split\<close>.
\<close>

definition split_first :: "string \<Rightarrow> string \<times> string" where
  "split_first s =
     (takeWhile (\<lambda>c. c \<noteq> CHR ''='') s, tl (dropWhile (\<lambda>c. c \<noteq> CHR ''='') s))"

definition model_data :: "pyval \<Rightarrow> error + (string \<times> pyval) list" where
  "model_data lang =
     (case lang of
        PStr s \<Rightarrow>
          if CHR ''='' \<in> set s
          then Inr [(''model'', PStr (fst (split_first s))),
                    (''version'', PStr (snd (split_first s)))]
          else Inr [(''model'', lang)]
      | PList xs \<Rightarrow> if PStr ''='' \<in> set xs then Inl AttributeError else Inr [(''model'', lang)]
      | PDict kvs \<Rightarrow>
          if ''='' \<in> set (map fst kvs) then Inl AttributeError else Inr [(''model'', lang)]
      | _ \<Rightarrow> Inl TypeError)"

text \<open>Lines 108 to 131: the message of a failed POST.\<close>

definition post_causes :: "int \<Rightarrow> string" where
  "post_causes code =
     (if code = 400 then
        ''Common causes of this error are:'' @ [CHR 0x0A] @ ''Malformed arguments'' @ [CHR 0x0A]
        @ ''Missing data file'' @ [CHR 0x0A] @ ''Absent / unsupported language selection.''
      else if code = 401 then
        ''Common causes of this error are:'' @ [CHR 0x0A]
        @ ''Invalid user id or authentication token.''
      else if code = 403 then
        ''Common causes of this error are:'' @ [CHR 0x0A] @ ''Insufficient credit'' @ [CHR 0x0A]
        @ ''User id not in our database'' @ [CHR 0x0A] @ ''Incorrect authentication token.''
      else if code = 429 then
        ''Common causes of this error are:'' @ [CHR 0x0A]
        @ ''You are submitting too many POSTs in a short period of time.''
      else if code = 503 then
        ''Common causes of this error are:'' @ [CHR 0x0A]
        @ ''The system is temporarily unavailable or overloaded.'' @ [CHR 0x0A]
        @ ''Your POST will typically succeed if you try again soon.''
      else [])"

definition contact_line :: string where
  "contact_line =
     ''If you are still unsure why your POST failed please contact speechmatics:''
     @ ''support@speechmatics.com''"

definition post_err_msg :: "int \<Rightarrow> string" where
  "post_err_msg code =
     ''Attempt to POST job failed with code '' @ str_int code @ [CHR 0x0A]
     @ post_causes code @ [CHR 0x0A] @ contact_line"

definition get_err_msg :: "int \<Rightarrow> string" where
  "get_err_msg code =
     ''Attempt to GET job details failed with code '' @ str_int code @ [CHR 0x0A]
     @ contact_line"

text \<open>
  \<^verbatim>\<open>job_post\<close>. The two \<^verbatim>\<open>open\<close> calls stand alone: no \<^verbatim>\<open>with\<close> block and no
  \<^verbatim>\<open>close\<close> follows them on any path.
\<close>

definition job_post ::
  "env \<Rightarrow> client \<Rightarrow> pyval \<Rightarrow> pyval \<Rightarrow> pyval \<Rightarrow> pyval \<Rightarrow> pyval \<Rightarrow> pyval \<Rightarrow> pyval run" where
  "job_post e c audio lang txt cb notif email =
     bindE (lift (join_url c None [])) (\<lambda>u.
     bindE (py_open e audio) (\<lambda>data_file.
     bindE (if truthy txt
            then bindE (py_open e txt) (\<lambda>text_file.
                   returnE [(''data_file'', data_file), (''text_file'', text_file)])
            else returnE [(''data_file'', data_file)]) (\<lambda>files.
     bindE (lift (model_data lang)) (\<lambda>data0.
     let data1 = (if truthy notif
                  then data0 @ [(''notification'', notif)]
                       @ (if notif = PStr ''callback'' then [(''callback'', cb)] else [])
                  else data0);
         data = (if truthy email then data1 @ [(''notification_email_address'', email)]
                 else data1)
     in bindE (emit (HttpPost u data files [(''auth_token'', api_token c)])) (\<lambda>_.
        let request = post_resp e
        in if status_code request = 200
           then bindE (lift (loads (body request))) (\<lambda>json_out.
                  lift (getitem json_out ''id''))
           else raise (SpeechmaticsError (post_err_msg (status_code request))))))))"

text \<open>\<^verbatim>\<open>job_details\<close>: the answer is the next one of the service's details answers.\<close>

definition job_details :: "env \<Rightarrow> client \<Rightarrow> pyval \<Rightarrow> pyval run" where
  "job_details e c job_id =
     bindE (lift (join_url c (Some job_id) ''/'')) (\<lambda>u.
     bindE (\<lambda>s. (Inr (details_resp e (polls s)),
                  s\<lparr>trace := trace s @ [HttpGet u [(''auth_token'', api_token c)]],
                    polls := Suc (polls s)\<rparr>)) (\<lambda>request.
       if status_code request = 200
       then bindE (lift (loads (body request))) (\<lambda>j. lift (getitem j ''job''))
       else raise (SpeechmaticsError (get_err_msg (status_code request)))))"

text \<open>\<^verbatim>\<open>get_output\<close>; the job type is one of the two literals its caller passes.\<close>

definition get_output :: "env \<Rightarrow> client \<Rightarrow> pyval \<Rightarrow> pyval \<Rightarrow> string \<Rightarrow> string run" where
  "get_output e c job_id frmat job_type =
     (let params = [(''auth_token'', api_token c)]
            @ (if truthy frmat \<and> job_type = ''transcript'' then [(''format'', PStr ''txt'')]
               else [])
            @ (if truthy frmat \<and> job_type = ''alignment''
               then [(''tags'', PStr ''one_per_line'')] else [])
      in bindE (lift (join_url c (Some job_id) (''/'' @ job_type))) (\<lambda>u.
         bindE (emit (HttpGet u params)) (\<lambda>_.
           let request = output_resp e
           in if status_code request = 200 then returnE (body request)
              else raise (SpeechmaticsError (get_err_msg (status_code request))))))"

section \<open>SpeechmaticsSpeechToText.transcript_audio\<close>

definition terminal_statuses :: "string list" where
  "terminal_statuses = [''done'', ''expired'', ''unsupported_file_format'', ''could_not_align'']"

definition is_terminal :: "pyval \<Rightarrow> bool" where
  "is_terminal st = (st \<in> set (map PStr terminal_statuses))"

text \<open>
  One turn of the \<^verbatim>\<open>while\<close> loop of lines 195 to 200: \<open>Inl\<close> when the loop is left
  (by its test, with the details it ends on, or by an exception), \<open>Inr\<close> with the new
  details when it goes round again.
\<close>

definition poll_step ::
  "env \<Rightarrow> client \<Rightarrow> pyval \<Rightarrow> pyval \<Rightarrow> state \<Rightarrow> ((error + pyval) \<times> state) + (pyval \<times> state)" where
  "poll_step e c job_id details s =
     (case getitem details ''job_status'' of
        Inl err \<Rightarrow> Inl (Inl err, s)
      | Inr st \<Rightarrow>
          if is_terminal st then Inl (Inr details, s)
          else (case bindE (lift (getitem details ''check_wait'')) (\<lambda>wait_s.
                       bindE (time_sleep wait_s) (\<lambda>_. job_details e c job_id)) s of
                  (Inl err, s') \<Rightarrow> Inl (Inl err, s')
                | (Inr details', s') \<Rightarrow> Inr (details', s')))"

text \<open>
  The loop has no bound: it runs until the service reports a terminal status, and a run in
  which it never does has no result (\<open>None\<close>).
\<close>

partial_function (option) poll_loop ::
  "env \<Rightarrow> client \<Rightarrow> pyval \<Rightarrow> pyval \<Rightarrow> state \<Rightarrow> ((error + pyval) \<times> state) option" where
  "poll_loop e c job_id details s =
     (case poll_step e c job_id details s of
        Inl r \<Rightarrow> Some r
      | Inr (details', s') \<Rightarrow> poll_loop e c job_id details' s')"

text \<open>
  Where a run stands after at most \<open>n\<close> turns of the loop: at its exit when it has left
  the loop by then, in the middle of it otherwise. A run that never leaves the loop has
  all of these states and no last one.
\<close>

fun poll_turns :: "nat \<Rightarrow> env \<Rightarrow> client \<Rightarrow> pyval \<Rightarrow> pyval \<Rightarrow> state \<Rightarrow> state" where
  "poll_turns 0 e c job_id details s = s"
| "poll_turns (Suc n) e c job_id details s =
     (case poll_step e c job_id details s of
        Inl (r, s') \<Rightarrow> s'
      | Inr (details', s') \<Rightarrow> poll_turns n e c job_id details' s')"

text \<open>
  Lines 184 to 190: the configuration is loaded, the client made and the job posted.
\<close>

definition submit :: "env \<Rightarrow> pyval \<Rightarrow> (config \<times> client \<times> pyval) run" where
  "submit e full_path =
     bindE (from_json e (PStr CONFIG_FILE)) (\<lambda>cfg.
       let c = SpeechmaticsClient (userId cfg) (apiAuthToken cfg)
       in bindE (job_post e c full_path (language cfg) (cfg_text cfg) (callback_url cfg)
                   (notification cfg) (notification_email cfg)) (\<lambda>job_id.
            returnE (cfg, c, job_id)))"

text \<open>
  Lines 202 to 220, after the loop. \<^verbatim>\<open>job_type\<close> is assigned in two branches only, so
  it may be unbound when \<^verbatim>\<open>get_output\<close> is called. The text returned is encoded as
  UTF-8, which a \<open>string\<close> here already is.
\<close>

definition unsupported_msg :: string where
  "unsupported_msg =
     ''File was in an unsupported file format and could not be transcribed. ''
     @ ''You have been reimbursed all credits for this job.''"

definition could_not_align_msg :: string where
  "could_not_align_msg =
     ''Could not align text and audio file. ''
     @ ''You have been reimbursed all credits for this job.''"

definition finish :: "env \<Rightarrow> config \<Rightarrow> client \<Rightarrow> pyval \<Rightarrow> pyval \<Rightarrow> string run" where
  "finish e cfg c job_id details =
     bindE (lift (getitem details ''job_status'')) (\<lambda>st.
       if st = PStr ''unsupported_file_format'' then raise (SpeechmaticsError unsupported_msg)
       else if st = PStr ''could_not_align'' then raise (SpeechmaticsError could_not_align_msg)
       else
         bindE (lift (getitem details ''job_type'')) (\<lambda>jt.
           let job_type = (if jt = PStr ''transcription'' then Some ''transcript''
                           else if jt = PStr ''alignment'' then Some ''alignment''
                           else None)
           in case job_type of
                None \<Rightarrow> raise UnboundLocalError
              | Some k \<Rightarrow> get_output e c job_id (format cfg) k))"

text \<open>
  Lines 184 to 193: the job is submitted and its details are fetched once. The whole of
  \<^verbatim>\<open>transcript_audio\<close> is then this start, from a state in which nothing has happened
  yet, the loop and the finish.
\<close>

definition start :: "env \<Rightarrow> pyval \<Rightarrow> (config \<times> client \<times> pyval \<times> pyval) run" where
  "start e full_path =
     bindE (submit e full_path) (\<lambda>(cfg, c, job_id).
     bindE (job_details e c job_id) (\<lambda>details.
       returnE (cfg, c, job_id, details)))"

definition transcript_audio :: "env \<Rightarrow> pyval \<Rightarrow> ((error + string) \<times> state) option" where
  "transcript_audio e full_path =
     (case start e full_path init_state of
        (Inl err, s) \<Rightarrow> Some (Inl err, s)
      | (Inr (cfg, c, job_id, details), s) \<Rightarrow>
          (case poll_loop e c job_id details s of
             None \<Rightarrow> None
           | Some (Inl err, s') \<Rightarrow> Some (Inl err, s')
           | Some (Inr details', s') \<Rightarrow> Some (finish e cfg c job_id details' s')))"

section \<open>Reading a trace\<close>

text \<open>The URLs of the GET requests of a trace and the seconds slept, each in order.\<close>

fun get_urls :: "event list \<Rightarrow> url list" where
  "get_urls [] = []"
| "get_urls (HttpGet u p # es) = u # get_urls es"
| "get_urls (_ # es) = get_urls es"

fun sleeps :: "event list \<Rightarrow> int list" where
  "sleeps [] = []"
| "sleeps (Sleep n # es) = n # sleeps es"
| "sleeps (_ # es) = sleeps es"

text \<open>The requests of a trace, POST and GET, in order.\<close>

fun sent :: "event list \<Rightarrow> event list" where
  "sent [] = []"
| "sent (HttpPost u d f p # es) = HttpPost u d f p # sent es"
| "sent (HttpGet u p # es) = HttpGet u p # sent es"
| "sent (_ # es) = sent es"

text \<open>
  The GET that \<^verbatim>\<open>job_details\<close> sends for job \<open>job_id\<close> as user \<open>u\<close>, and the record
  the \<open>i\<close>-th such GET brings back when the answer is a 200 whose JSON has a
  \<^verbatim>\<open>job\<close> entry.
\<close>

definition details_get :: "client \<Rightarrow> string \<Rightarrow> pyval \<Rightarrow> event" where
  "details_get c u job_id =
     HttpGet \<lparr>url_base = base_url c, url_user = u, url_job = Some job_id, url_tail = ''/''\<rparr>
       [(''auth_token'', api_token c)]"

definition details_at :: "env \<Rightarrow> nat \<Rightarrow> pyval option" where
  "details_at e i =
     (if status_code (details_resp e i) = 200
      then (case loads (body (details_resp e i)) of
              Inl _ \<Rightarrow> None
            | Inr j \<Rightarrow> (case getitem j ''job'' of Inl _ \<Rightarrow> None | Inr d \<Rightarrow> Some d))
      else None)"

text \<open>
  A details record of a job still in progress, with the wait it asks for, and one whose
  status is the terminal status \<open>st\<close>.
\<close>

definition running :: "pyval \<Rightarrow> int \<Rightarrow> bool" where
  "running d w =
     ((case getitem d ''job_status'' of Inl _ \<Rightarrow> False | Inr st \<Rightarrow> \<not> is_terminal st)
      \<and> getitem d ''check_wait'' = Inr (PInt w) \<and> 0 \<le> w)"

definition finished :: "pyval \<Rightarrow> string \<Rightarrow> bool" where
  "finished d st = (getitem d ''job_status'' = Inr (PStr st) \<and> st \<in> set terminal_statuses)"

section \<open>A sample service\<close>

text \<open>
  A world to run the program in: the configuration file holds a user id and a token, the
  audio file \<^verbatim>\<open>a.mp3\<close> can be opened and no other file, the POST is answered with
  job id \<^verbatim>\<open>"42"\<close>, the details GETs with the records of \<open>ds\<close> in turn (and with a
  500 once they are used up), the output GET with \<^verbatim>\<open>hello world\<close>.
\<close>

definition sample_config :: pyval where
  "sample_config = PDict [(''userId'', PStr ''u1''), (''apiAuthToken'', PStr ''t1'')]"

definition sample_env :: "pyval \<Rightarrow> pyval list \<Rightarrow> env" where
  "sample_env conf ds =
     \<lparr>can_open = (\<lambda>f. f = PStr CONFIG_FILE \<or> f = PStr ''a.mp3''),
      file_json = (\<lambda>f. if f = PStr CONFIG_FILE then Some conf else None),
      post_resp = \<lparr>status_code = 200, body = Some (PDict [(''id'', PStr ''42'')])\<rparr>,
      details_resp = (\<lambda>i. if i < length ds
                            then \<lparr>status_code = 200, body = Some (PDict [(''job'', ds ! i)])\<rparr>
                            else \<lparr>status_code = 500, body = None\<rparr>),
      output_resp = \<lparr>status_code = 200, body = ''hello world''\<rparr>\<rparr>"

definition job_running :: "int \<Rightarrow> pyval" where
  "job_running w = PDict [(''job_status'', PStr ''running''), (''check_wait'', PInt w)]"

definition job_ended :: "string \<Rightarrow> string \<Rightarrow> pyval" where
  "job_ended st jt = PDict [(''job_status'', PStr st), (''job_type'', PStr jt)]"

definition sample_client :: client where
  "sample_client = SpeechmaticsClient (PStr ''u1'') (PStr ''t1'')"

text \<open>The same world with a service that answers every request with status \<open>code\<close>.\<close>

definition refusing_env :: "int \<Rightarrow> env" where
  "refusing_env code =
     (sample_env sample_config [])
       \<lparr>post_resp := \<lparr>status_code = code, body = None\<rparr>,
        details_resp := (\<lambda>i. \<lparr>status_code = code, body = None\<rparr>),
        output_resp := \<lparr>status_code = code, body = []\<rparr>\<rparr>"

text \<open>
  What loading \<open>sample_config\<close> gives, and the state of a run in the sample world after
  the POST and after a first details GET followed by a sleep and a further GET for each
  wait of \<open>ws\<close>.
\<close>

definition sample_cfg :: config where
  "sample_cfg =
     \<lparr>userId = PStr ''u1'', apiAuthToken = PStr ''t1'', language = PStr ''en-US'',
      format = PStr ''txt'', cfg_text = PNone, callback_url = PNone, notification = PNone,
      notification_email = PNone\<rparr>"

definition sample_posted :: state where
  "sample_posted =
     \<lparr>trace = [Open (PStr CONFIG_FILE), Close (PStr CONFIG_FILE), Open (PStr ''a.mp3''),
               HttpPost \<lparr>url_base = ''https://api.speechmatics.com/v1.0'', url_user = ''u1'',
                          url_job = None, url_tail = []\<rparr>
                 [(''model'', PStr ''en-US'')] [(''data_file'', PStr ''a.mp3'')]
                 [(''auth_token'', PStr ''t1'')]],
      polls = 0\<rparr>"

definition sample_polled :: "int list \<Rightarrow> state" where
  "sample_polled ws =
     \<lparr>trace = trace sample_posted
               @ details_get sample_client ''u1'' (PStr ''42'')
                 # concat (map (\<lambda>w. [Sleep w, details_get sample_client ''u1'' (PStr ''42'')]) ws),
      polls = Suc (length ws)\<rparr>"

text \<open>The state after the output GET for the transcript has followed those polls.\<close>

definition sample_transcribed :: "int list \<Rightarrow> state" where
  "sample_transcribed ws =
     (sample_polled ws)
       \<lparr>trace := trace (sample_polled ws)
            @ [HttpGet \<lparr>url_base = ''https://api.speechmatics.com/v1.0'', url_user = ''u1'',
                        url_job = Some (PStr ''42''), url_tail = ''/transcript''\<rparr>
                 [(''auth_token'', PStr ''t1''), (''format'', PStr ''txt'')]]\<rparr>"

section \<open>Sequencing and traces\<close>

lemma bindE_returnE [simp]: "bindE (returnE x) f s = f x s"
  by (simp add: bindE_def returnE_def)

lemma bindE_raise [simp]: "bindE (raise err) f s = (Inl err, s)"
  by (simp add: bindE_def raise_def)

lemma bindE_lift_Inr [simp]: "bindE (lift (Inr x)) f s = f x s"
  by (simp add: bindE_def lift_def)

lemma bindE_lift_Inl [simp]: "bindE (lift (Inl err)) f s = (Inl err, s)"
  by (simp add: bindE_def lift_def)

lemma bindE_emit [simp]: "bindE (emit ev) f s = f () (s\<lparr>trace := trace s @ [ev]\<rparr>)"
  by (simp add: bindE_def emit_def)

lemma init_state_simps [simp]: "trace init_state = []" "polls init_state = 0"
  by (simp_all add: init_state_def)

lemma get_urls_append [simp]: "get_urls (xs @ ys) = get_urls xs @ get_urls ys"
  by (induction xs rule: get_urls.induct) simp_all

lemma sleeps_append [simp]: "sleeps (xs @ ys) = sleeps xs @ sleeps ys"
  by (induction xs rule: sleeps.induct) simp_all

section \<open>The polling loop on a service that answers as expected\<close>

lemma job_details_ok:
  assumes "api_user_id c = PStr u" and "details_at e (polls s) = Some d"
  shows "job_details e c job_id s
           = (Inr d, s\<lparr>trace := trace s @ [details_get c u job_id], polls := Suc (polls s)\<rparr>)"
  using assms
  by (auto simp: job_details_def join_url_def details_at_def details_get_def bindE_def lift_def
           split: if_splits sum.splits)

lemma poll_step_running:
  assumes "api_user_id c = PStr u" and "running d w" and "details_at e (polls s) = Some d'"
  shows "poll_step e c job_id d s
           = Inr (d', s\<lparr>trace := trace s @ [Sleep w, details_get c u job_id],
                        polls := Suc (polls s)\<rparr>)"
proof -
  from assms(2) obtain st where st: "getitem d ''job_status'' = Inr st" "\<not> is_terminal st"
    and w: "getitem d ''check_wait'' = Inr (PInt w)" "0 \<le> w"
    by (auto simp: running_def split: sum.splits)
  have "job_details e c job_id (s\<lparr>trace := trace s @ [Sleep w]\<rparr>)
          = (Inr d', s\<lparr>trace := trace s @ [Sleep w] @ [details_get c u job_id],
                       polls := Suc (polls s)\<rparr>)"
    using job_details_ok [OF assms(1), of e "s\<lparr>trace := trace s @ [Sleep w]\<rparr>" d' job_id] assms(3)
    by simp
  then show ?thesis
    using st w by (simp add: poll_step_def time_sleep_def)
qed

lemma poll_step_finished:
  assumes "finished d st"
  shows "poll_step e c job_id d s = Inl (Inr d, s)"
  using assms by (simp add: poll_step_def finished_def is_terminal_def)

lemma poll_loop_runs:
  assumes uid: "api_user_id c = PStr u"
    and run: "\<And>i. k \<le> i \<Longrightarrow> i < n \<Longrightarrow> running (d i) (w i)"
    and nxt: "\<And>i. k < i \<Longrightarrow> i \<le> n \<Longrightarrow> details_at e i = Some (d i)"
    and fin: "finished (d n) st"
    and pos: "polls s = Suc k" "k \<le> n"
  shows "poll_loop e c job_id (d k) s
           = Some (Inr (d n),
                   s\<lparr>trace := trace s @ concat (map (\<lambda>i. [Sleep (w i), details_get c u job_id]) [k..<n]),
                     polls := Suc n\<rparr>)"
  using run nxt pos
proof (induction "n - k" arbitrary: k s)
  case 0
  then have "k = n" by simp
  then show ?case
    using poll_step_finished [OF fin] "0.prems"(3)
    by (subst poll_loop.simps) simp
next
  case (Suc m)
  then have kn: "k < n" by simp
  let ?s = "s\<lparr>trace := trace s @ [Sleep (w k), details_get c u job_id], polls := Suc (polls s)\<rparr>"
  have step: "poll_step e c job_id (d k) s = Inr (d (Suc k), ?s)"
    using poll_step_running [OF uid, of "d k" "w k" e s "d (Suc k)" job_id]
      Suc.prems(1) [of k] Suc.prems(2) [of "Suc k"] Suc.prems(3) kn
    by simp
  have ih: "poll_loop e c job_id (d (Suc k)) ?s
              = Some (Inr (d n),
                   ?s\<lparr>trace := trace ?s @ concat (map (\<lambda>i. [Sleep (w i), details_get c u job_id]) [Suc k..<n]),
                     polls := Suc n\<rparr>)"
    using Suc.hyps(1) [of "Suc k" ?s] Suc.hyps(2) Suc.prems kn by simp
  show ?case
    using step ih kn
    by (subst poll_loop.simps) (simp add: upt_conv_Cons)
qed


section \<open>What each operation adds to the trace\<close>

lemma bindE_E:
  assumes "bindE m f s = (r, s'')"
  obtains (fails) err where "m s = (Inl err, s'')" "r = Inl err"
  | (goes) x s' where "m s = (Inr x, s')" "f x s' = (r, s'')"
  using assms by (auto simp: bindE_def split: prod.splits sum.splits)


lemma bindE_lift: "bindE (lift r) f s = (case r of Inl err \<Rightarrow> (Inl err, s) | Inr x \<Rightarrow> f x s)"
  by (cases r) simp_all

lemma bindE_assoc [simp]: "bindE (bindE m f) g s = bindE m (\<lambda>x. bindE (f x) g) s"
  by (simp add: bindE_def split: prod.splits sum.splits)

lemma bindE_if: "bindE (if b then m else n) f s = (if b then bindE m f s else bindE n f s)"
  by simp

lemma bindE_py_open:
  "bindE (py_open e f) g s = (if \<not> openable f then (Inl TypeError, s)
                    else if \<not> can_open e f then (Inl IOError, s)
                    else g f (s\<lparr>trace := trace s @ [Open f]\<rparr>))"
  by (simp add: py_open_def)

lemma from_json_quiet:
  assumes "from_json e f s = (r, s')"
  shows "polls s' = polls s \<and> (\<exists>es. trace s' = trace s @ es \<and> get_urls es = [] \<and> sleeps es = [])"
  using assms
  by (auto simp: from_json_def bindE_py_open bindE_lift lift_def
           split: if_splits sum.splits)

lemma job_post_quiet:
  assumes "job_post e c audio lang txt cb notif email s = (r, s')"
  shows "polls s' = polls s \<and> (\<exists>es. trace s' = trace s @ es \<and> get_urls es = [] \<and> sleeps es = [])"
  using assms
  by (auto simp: job_post_def bindE_py_open bindE_lift bindE_if lift_def raise_def Let_def
           split: if_splits sum.splits)

lemma submit_quiet:
  assumes "submit e path s = (r, s')"
  shows "polls s' = polls s \<and> (\<exists>es. trace s' = trace s @ es \<and> get_urls es = [] \<and> sleeps es = [])"
  using assms unfolding submit_def Let_def
proof (cases rule: bindE_E)
  case (fails err)
  then show ?thesis using from_json_quiet by blast
next
  case (goes cfg s1)
  from goes(2) show ?thesis
  proof (cases rule: bindE_E)
    case (fails err)
    then show ?thesis
      using from_json_quiet [OF goes(1)] job_post_quiet [OF fails(1)] by auto
  next
    case (goes job_id s2)
    then show ?thesis
      using from_json_quiet [OF \<open>from_json e (PStr CONFIG_FILE) s = (Inr cfg, s1)\<close>]
        job_post_quiet [OF goes(1)]
      by (auto simp: returnE_def)
  qed
qed





lemma job_details_gets:
  assumes "job_details e c job_id s = (r, s')"
  shows "\<exists>es. trace s' = trace s @ es \<and> sleeps es = []
           \<and> (\<forall>u\<in>set (get_urls es). url_job u = Some job_id \<and> url_tail u = ''/'')"
  using assms
  by (cases "api_user_id c")
     (auto simp: job_details_def join_url_def bindE_def lift_def raise_def
           split: if_splits sum.splits prod.splits)

lemma time_sleep_gets:
  assumes "time_sleep w s = (r, s')"
  shows "\<exists>es. trace s' = trace s @ es \<and> get_urls es = []"
  using assms
  by (cases w) (auto simp: time_sleep_def raise_def emit_def split: if_splits)

lemma poll_step_gets:
  assumes "poll_step e c job_id d s = out"
    and "out = Inl (r, s') \<or> out = Inr (d', s')"
  shows "\<exists>es. trace s' = trace s @ es
           \<and> (\<forall>u\<in>set (get_urls es). url_job u = Some job_id \<and> url_tail u = ''/'')"
proof (cases "getitem d ''job_status''")
  case (Inl err)
  then show ?thesis using assms by (auto simp: poll_step_def)
next
  case (Inr st)
  show ?thesis
  proof (cases "is_terminal st")
    case True
    then show ?thesis using assms Inr by (auto simp: poll_step_def)
  next
    case False
    let ?body = "bindE (lift (getitem d ''check_wait'')) (\<lambda>wait_s.
                   bindE (time_sleep wait_s) (\<lambda>_. job_details e c job_id))"
    obtain r0 where body: "?body s = (r0, s')"
      using assms Inr False by (auto simp: poll_step_def split: prod.splits sum.splits)
    from body show ?thesis
    proof (cases rule: bindE_E)
      case (fails err)
      then show ?thesis by (simp add: lift_def)
    next
      case (goes wait_s s1)
      then have s1: "s1 = s" by (simp add: lift_def)
      from goes(2) show ?thesis
      proof (cases rule: bindE_E)
        case (fails err)
        then show ?thesis using time_sleep_gets [of wait_s s1 "Inl err" s'] s1 by auto
      next
        case (goes x s2)
        then show ?thesis
          using time_sleep_gets [OF goes(1)] job_details_gets [OF goes(2)] s1 by auto
      qed
    qed
  qed
qed


lemma poll_loop_gets:
  assumes "poll_loop e c job_id d s = Some out"
  shows "\<exists>es. trace (snd out) = trace s @ es
           \<and> (\<forall>u\<in>set (get_urls es). url_job u = Some job_id \<and> url_tail u = ''/'')"
proof (rule poll_loop.raw_induct
    [where P = "\<lambda>e c job_id d s out. \<exists>es. trace (snd out) = trace s @ es
           \<and> (\<forall>u\<in>set (get_urls es). url_job u = Some job_id \<and> url_tail u = ''/'')",
     OF _ assms])
  fix loop e c job_id d s out
  assume IH: "\<And>e c job_id d s out. loop e c job_id d s = Some out \<Longrightarrow>
           \<exists>es. trace (snd out) = trace s @ es
             \<and> (\<forall>u\<in>set (get_urls es). url_job u = Some job_id \<and> url_tail u = ''/'')"
    and body: "(case poll_step e c job_id d s of Inl r \<Rightarrow> Some r
                | Inr (d', s') \<Rightarrow> loop e c job_id d' s') = Some out"
  show "\<exists>es. trace (snd out) = trace s @ es
           \<and> (\<forall>u\<in>set (get_urls es). url_job u = Some job_id \<and> url_tail u = ''/'')"
  proof (cases "poll_step e c job_id d s")
    case (Inl r)
    then have "out = r" using body by simp
    then show ?thesis
      using poll_step_gets [OF Inl, of "fst out" "snd out"] Inl by simp
  next
    case (Inr ds)
    obtain d' s' where ds: "ds = (d', s')" by (cases ds)
    then have "loop e c job_id d' s' = Some out" using body Inr by simp
    from IH [OF this] obtain es' where
      es': "trace (snd out) = trace s' @ es'"
           "\<forall>u\<in>set (get_urls es'). url_job u = Some job_id \<and> url_tail u = ''/''"
      by blast
    from poll_step_gets [OF Inr, of undefined s' d'] ds obtain es where
      es: "trace s' = trace s @ es"
          "\<forall>u\<in>set (get_urls es). url_job u = Some job_id \<and> url_tail u = ''/''"
      by blast
    show ?thesis
      using es es' by (intro exI [of _ "es @ es'"]) auto
  qed
qed

lemma poll_turns_gets:
  "\<exists>es. trace (poll_turns n e c job_id d s) = trace s @ es
      \<and> (\<forall>u\<in>set (get_urls es). url_job u = Some job_id \<and> url_tail u = ''/'')"
proof (induction n arbitrary: d s)
  case 0
  show ?case by simp
next
  case (Suc n)
  show ?case
  proof (cases "poll_step e c job_id d s")
    case (Inl out)
    then show ?thesis
      using poll_step_gets [OF Inl, of "fst out" "snd out"] by (cases out) simp
  next
    case (Inr ds)
    obtain d' s' where ds: "ds = (d', s')" by (cases ds)
    from poll_step_gets [OF Inr, of undefined s' d'] ds obtain es where
      es: "trace s' = trace s @ es"
          "\<forall>u\<in>set (get_urls es). url_job u = Some job_id \<and> url_tail u = ''/''"
      by blast
    from Suc.IH [of d' s'] obtain es' where
      es': "trace (poll_turns n e c job_id d' s') = trace s' @ es'"
           "\<forall>u\<in>set (get_urls es'). url_job u = Some job_id \<and> url_tail u = ''/''"
      by blast
    show ?thesis
      using Inr ds es es' by (intro exI [of _ "es @ es'"]) auto
  qed
qed



lemma sent_append [simp]: "sent (xs @ ys) = sent xs @ sent ys"
  by (induction xs rule: sent.induct) simp_all

section \<open>The configuration\<close>

text \<open>
  C3. Constructing a configuration fails with the constructor's own exception exactly when
  one of userId, apiAuthToken, language, format is empty or absent, that is, when the value
  the parameter is bound to is false for Python (\<^verbatim>\<open>None\<close>, the empty str, and the other
  empty values). When all four are non-empty the construction succeeds and keeps them, and
  a language or format the call leaves out is \<^verbatim>\<open>en-US\<close> and \<^verbatim>\<open>txt\<close>.
\<close>

theorem config_init_validates:
  "((\<exists>m. SpeechmaticsConfig_init uid tok lang fmt txt cb notif email = Inl (Exception m))
      \<longleftrightarrow> (\<not> truthy uid \<or> \<not> truthy tok
           \<or> (\<exists>l. lang = Some l \<and> \<not> truthy l) \<or> (\<exists>f. fmt = Some f \<and> \<not> truthy f)))
   \<and> ((\<exists>cfg. SpeechmaticsConfig_init uid tok lang fmt txt cb notif email = Inr cfg
             \<and> userId cfg = uid \<and> apiAuthToken cfg = tok
             \<and> language cfg = (case lang of None \<Rightarrow> PStr ''en-US'' | Some l \<Rightarrow> l)
             \<and> format cfg = (case fmt of None \<Rightarrow> PStr ''txt'' | Some f \<Rightarrow> f))
      \<longleftrightarrow> (truthy uid \<and> truthy tok
           \<and> (\<forall>l. lang = Some l \<longrightarrow> truthy l) \<and> (\<forall>f. fmt = Some f \<longrightarrow> truthy f)))"
  by (cases lang; cases fmt) (auto simp: SpeechmaticsConfig_init_def arg_or_def)

theorem config_init_validates_witness:
  "(\<exists>cfg. SpeechmaticsConfig_init (PStr ''u1'') (PStr ''t1'') None None None None None None
             = Inr cfg
          \<and> userId cfg = PStr ''u1'' \<and> apiAuthToken cfg = PStr ''t1''
          \<and> language cfg = PStr ''en-US'' \<and> format cfg = PStr ''txt'')
   \<and> (\<exists>m. SpeechmaticsConfig_init (PStr ''u1'') (PStr ''t1'') (Some PNone) None
             None None None None = Inl (Exception m))
   \<and> (\<exists>m. SpeechmaticsConfig_init (PStr []) (PStr ''t1'') None None None None None None
             = Inl (Exception m))"
  using config_init_validates [of "PStr ''u1''" "PStr ''t1''" None None None None None None]
    config_init_validates [of "PStr ''u1''" "PStr ''t1''" "Some PNone" None None None None None]
    config_init_validates [of "PStr []" "PStr ''t1''" None None None None None None]
  by simp

lemma from_json_result:
  assumes "openable f" and "can_open e f" and "file_json e f = Some loaded_json"
  shows "from_json e f s = (call_kwargs loaded_json, s\<lparr>trace := trace s @ [Open f, Close f]\<rparr>)"
  using assms by (simp add: from_json_def bindE_py_open loads_def lift_def)

text \<open>
  C8, as the code has it. A record read from a file that can be opened is handed to the
  constructor as keyword arguments. If it is not a key-value record, or has a field that
  is no parameter of the constructor, or lacks userId or apiAuthToken, the call fails with
  Python's \<^verbatim>\<open>TypeError\<close> before the constructor runs; this is not the exception the
  constructor raises for an empty field. Any other record gives exactly what constructing
  directly from its fields gives, so the same validation applies.
\<close>

theorem from_json_binds_then_validates:
  assumes "openable f" and "can_open e f" and "file_json e f = Some loaded_json"
  shows "fst (from_json e f s)
           = (case loaded_json of
                PDict kvs \<Rightarrow>
                  if (\<exists>k\<in>set (map fst kvs). k \<notin> set param_names)
                     \<or> map_of kvs ''userId'' = None \<or> map_of kvs ''apiAuthToken'' = None
                  then Inl TypeError
                  else SpeechmaticsConfig_init (the (map_of kvs ''userId''))
                         (the (map_of kvs ''apiAuthToken''))
                         (map_of kvs ''language'') (map_of kvs ''format'') (map_of kvs ''text'')
                         (map_of kvs ''callback_url'') (map_of kvs ''notification'')
                         (map_of kvs ''notification_email'')
              | _ \<Rightarrow> Inl TypeError)"
  using from_json_result [OF assms, of s]
  by (cases loaded_json) (auto simp: call_kwargs_def list_all_iff split: option.splits)

lemma sample_openable: "openable (PStr CONFIG_FILE)" "can_open (sample_env conf ds) (PStr CONFIG_FILE)"
  "file_json (sample_env conf ds) (PStr CONFIG_FILE) = Some conf"
  by (simp_all add: openable_def sample_env_def)

theorem from_json_binds_then_validates_witness:
  "fst (from_json (sample_env sample_config []) (PStr CONFIG_FILE) init_state)
     = Inr \<lparr>userId = PStr ''u1'', apiAuthToken = PStr ''t1'', language = PStr ''en-US'',
            format = PStr ''txt'', cfg_text = PNone, callback_url = PNone,
            notification = PNone, notification_email = PNone\<rparr>"
  using from_json_binds_then_validates [OF sample_openable, of sample_config "[]" init_state]
  by (simp add: sample_config_def param_names_def SpeechmaticsConfig_init_def arg_or_def)

text \<open>
  C8, as the claim has it, fails on a record with a field the constructor does not know:
  loading it ends in \<^verbatim>\<open>TypeError\<close>, not in the constructor's exception.
\<close>

theorem from_json_unknown_field_TypeError:
  "fst (from_json
          (sample_env (PDict [(''userId'', PStr ''u1''), (''apiAuthToken'', PStr ''t1''),
                              (''colour'', PStr ''red'')]) [])
          (PStr CONFIG_FILE) init_state)
     = Inl TypeError"
  by (simp add: from_json_result [OF sample_openable] call_kwargs_def param_names_def)


section \<open>The client\<close>

lemma job_post_sent:
  assumes "job_post e c audio lang txt cb notif email s = (r, s')"
    and "sent (trace s') \<noteq> sent (trace s)"
  shows "\<exists>u data0 files pre.
           api_user_id c = PStr u \<and> model_data lang = Inr data0 \<and> sent pre = []
           \<and> trace s' = trace s @ pre
                @ [HttpPost \<lparr>url_base = base_url c, url_user = u, url_job = None, url_tail = []\<rparr>
                     (data0
                      @ (if truthy notif
                         then (''notification'', notif)
                              # (if notif = PStr ''callback'' then [(''callback'', cb)] else [])
                         else [])
                      @ (if truthy email then [(''notification_email_address'', email)] else []))
                     files [(''auth_token'', api_token c)]]
           \<and> r = (if status_code (post_resp e) = 200
                  then (case loads (body (post_resp e)) of
                          Inl err \<Rightarrow> Inl err | Inr json_out \<Rightarrow> getitem json_out ''id'')
                  else Inl (SpeechmaticsError (post_err_msg (status_code (post_resp e)))))"
proof (cases "api_user_id c")
  case (PStr u)
  show ?thesis
  proof (cases "model_data lang")
    case (Inl err)
    then show ?thesis
      using assms PStr
      by (auto simp: job_post_def join_url_def bindE_py_open bindE_if split: if_splits)
  next
    case (Inr data0)
    then show ?thesis
      using assms PStr
      by (auto simp: job_post_def join_url_def bindE_py_open bindE_if bindE_lift lift_def
            raise_def Let_def split: if_splits sum.splits)
  qed
qed (use assms in \<open>simp_all add: job_post_def join_url_def\<close>)


lemma job_details_sent:
  assumes "job_details e c job_id s = (r, s')"
    and "sent (trace s') \<noteq> sent (trace s)"
  shows "r = (if status_code (details_resp e (polls s)) = 200
              then (case loads (body (details_resp e (polls s))) of
                      Inl err \<Rightarrow> Inl err | Inr j \<Rightarrow> getitem j ''job'')
              else Inl (SpeechmaticsError (get_err_msg (status_code (details_resp e (polls s))))))"
  using assms
  by (cases "api_user_id c")
     (auto simp: job_details_def join_url_def bindE_def lift_def raise_def
           split: if_splits sum.splits prod.splits)

lemma get_output_sent:
  assumes "get_output e c job_id frmat job_type s = (r, s')"
    and "sent (trace s') \<noteq> sent (trace s)"
  shows "r = (if status_code (output_resp e) = 200 then Inr (body (output_resp e))
              else Inl (SpeechmaticsError (get_err_msg (status_code (output_resp e)))))"
  using assms
  by (cases "api_user_id c")
     (auto simp: get_output_def join_url_def Let_def raise_def returnE_def split: if_splits)

lemma post_causes_distinct: "distinct (map post_causes [400, 401, 403, 429, 503])"
  by (simp add: post_causes_def)

text \<open>
  C4. When the service answers the request of \<^verbatim>\<open>job_post\<close>, \<^verbatim>\<open>job_details\<close> or
  \<^verbatim>\<open>get_output\<close> with a status other than 200, the operation ends in
  \<^verbatim>\<open>SpeechmaticsError\<close>, the one exception class for all three. The message of
  \<^verbatim>\<open>job_post\<close> names the code and then lists causes that are different for each of
  400, 401, 403, 429 and 503, and none for any other code.
\<close>

theorem non_200_raises_SpeechmaticsError:
  "(status_code (post_resp e) \<noteq> 200
      \<and> job_post e c audio lang txt cb notif email s = (r, s')
      \<and> sent (trace s') \<noteq> sent (trace s)
     \<longrightarrow> r = Inl (SpeechmaticsError (post_err_msg (status_code (post_resp e)))))
   \<and> (status_code (details_resp e (polls s)) \<noteq> 200
      \<and> job_details e c job_id s = (r1, s1) \<and> sent (trace s1) \<noteq> sent (trace s)
     \<longrightarrow> r1 = Inl (SpeechmaticsError (get_err_msg (status_code (details_resp e (polls s))))))
   \<and> (status_code (output_resp e) \<noteq> 200
      \<and> get_output e c job_id frmat job_type s = (r2, s2) \<and> sent (trace s2) \<noteq> sent (trace s)
     \<longrightarrow> r2 = Inl (SpeechmaticsError (get_err_msg (status_code (output_resp e)))))
   \<and> post_err_msg code
       = ''Attempt to POST job failed with code '' @ str_int code @ [CHR 0x0A]
         @ post_causes code @ [CHR 0x0A] @ contact_line
   \<and> distinct (map post_causes [400, 401, 403, 429, 503])
   \<and> [] \<notin> set (map post_causes [400, 401, 403, 429, 503])
   \<and> (code \<notin> {400, 401, 403, 429, 503} \<longrightarrow> post_causes code = [])"
proof (intro conjI impI)
  assume "status_code (post_resp e) \<noteq> 200
      \<and> job_post e c audio lang txt cb notif email s = (r, s')
      \<and> sent (trace s') \<noteq> sent (trace s)"
  then show "r = Inl (SpeechmaticsError (post_err_msg (status_code (post_resp e))))"
    using job_post_sent [of e c audio lang "txt" cb notif email s r s'] by auto
next
  assume "status_code (details_resp e (polls s)) \<noteq> 200
      \<and> job_details e c job_id s = (r1, s1) \<and> sent (trace s1) \<noteq> sent (trace s)"
  then show "r1 = Inl (SpeechmaticsError (get_err_msg (status_code (details_resp e (polls s)))))"
    using job_details_sent [of e c job_id s r1 s1] by simp
next
  assume "status_code (output_resp e) \<noteq> 200
      \<and> get_output e c job_id frmat job_type s = (r2, s2) \<and> sent (trace s2) \<noteq> sent (trace s)"
  then show "r2 = Inl (SpeechmaticsError (get_err_msg (status_code (output_resp e))))"
    using get_output_sent [of e c job_id frmat job_type s r2 s2] by simp
next
  show "post_err_msg code
       = ''Attempt to POST job failed with code '' @ str_int code @ [CHR 0x0A]
         @ post_causes code @ [CHR 0x0A] @ contact_line"
    by (simp add: post_err_msg_def)
next
  show "distinct (map post_causes [400, 401, 403, 429, 503])"
    by (rule post_causes_distinct)
next
  show "[] \<notin> set (map post_causes [400, 401, 403, 429, 503])"
    by (simp add: post_causes_def)
next
  assume "code \<notin> {400, 401, 403, 429, 503}"
  then show "post_causes code = []"
    by (simp add: post_causes_def)
qed

lemma sample_job_post_refused:
  "job_post (refusing_env 418) sample_client (PStr ''a.mp3'') (PStr ''en-US'')
       PNone PNone PNone PNone init_state
     = (Inl (SpeechmaticsError (post_err_msg 418)),
        \<lparr>trace = [Open (PStr ''a.mp3''),
                  HttpPost \<lparr>url_base = ''https://api.speechmatics.com/v1.0'', url_user = ''u1'',
                             url_job = None, url_tail = []\<rparr>
                    [(''model'', PStr ''en-US'')] [(''data_file'', PStr ''a.mp3'')]
                    [(''auth_token'', PStr ''t1'')]],
          polls = 0\<rparr>)"
  by (simp add: job_post_def refusing_env_def sample_env_def sample_client_def
        SpeechmaticsClient_def join_url_def bindE_py_open openable_def model_data_def
        init_state_def raise_def)


lemma sample_job_details_refused:
  "job_details (refusing_env 418) sample_client (PStr ''42'') init_state
     = (Inl (SpeechmaticsError (get_err_msg 418)),
        \<lparr>trace = [details_get sample_client ''u1'' (PStr ''42'')], polls = 1\<rparr>)"
  by (simp add: job_details_def refusing_env_def sample_env_def sample_client_def
        SpeechmaticsClient_def join_url_def bindE_def lift_def details_get_def
        init_state_def raise_def)

lemma sample_get_output_refused:
  "get_output (refusing_env 418) sample_client (PStr ''42'') (PStr ''txt'') ''transcript''
       init_state
     = (Inl (SpeechmaticsError (get_err_msg 418)),
        \<lparr>trace = [HttpGet \<lparr>url_base = ''https://api.speechmatics.com/v1.0'', url_user = ''u1'',
                            url_job = Some (PStr ''42''), url_tail = ''/transcript''\<rparr>
                    [(''auth_token'', PStr ''t1''), (''format'', PStr ''txt'')]],
          polls = 0\<rparr>)"
  by (simp add: get_output_def refusing_env_def sample_env_def sample_client_def
        SpeechmaticsClient_def join_url_def init_state_def raise_def)

theorem non_200_raises_SpeechmaticsError_witness:
  "fst (job_post (refusing_env 418) sample_client (PStr ''a.mp3'') (PStr ''en-US'')
          PNone PNone PNone PNone init_state)
     = Inl (SpeechmaticsError (post_err_msg 418))
   \<and> fst (job_details (refusing_env 418) sample_client (PStr ''42'') init_state)
     = Inl (SpeechmaticsError (get_err_msg 418))
   \<and> fst (get_output (refusing_env 418) sample_client (PStr ''42'') (PStr ''txt'')
            ''transcript'' init_state)
     = Inl (SpeechmaticsError (get_err_msg 418))
   \<and> post_causes 418 = []"
proof -
  let ?e = "refusing_env 418"
  let ?post = "job_post ?e sample_client (PStr ''a.mp3'') (PStr ''en-US'')
                 PNone PNone PNone PNone init_state"
  let ?details = "job_details ?e sample_client (PStr ''42'') init_state"
  let ?output = "get_output ?e sample_client (PStr ''42'') (PStr ''txt'') ''transcript''
                   init_state"
  have codes: "status_code (post_resp ?e) = 418" "status_code (details_resp ?e n) = 418"
    "status_code (output_resp ?e) = 418" for n
    by (simp_all add: refusing_env_def)
  have sent: "sent (trace (snd ?post)) \<noteq> sent (trace init_state)"
    "sent (trace (snd ?details)) \<noteq> sent (trace init_state)"
    "sent (trace (snd ?output)) \<noteq> sent (trace init_state)"
    by (simp_all add: sample_job_post_refused sample_job_details_refused
          sample_get_output_refused details_get_def)
  show ?thesis
    using non_200_raises_SpeechmaticsError
      [of ?e sample_client "PStr ''a.mp3''" "PStr ''en-US''" PNone PNone PNone PNone
          init_state "fst ?post" "snd ?post" "PStr ''42''" "fst ?details" "snd ?details"
          "PStr ''txt''" "''transcript''" "fst ?output" "snd ?output" 418]
      codes sent
    by simp
qed


lemma split_first_parts:
  assumes "CHR ''='' \<in> set l"
  shows "l = fst (split_first l) @ CHR ''='' # snd (split_first l)
         \<and> CHR ''='' \<notin> set (fst (split_first l))"
proof -
  let ?p = "\<lambda>c. c \<noteq> CHR ''=''"
  have ne: "dropWhile ?p l \<noteq> []"
    using assms by auto
  then have "hd (dropWhile ?p l) = CHR ''=''"
    using hd_dropWhile [of ?p l] by simp
  with ne have "dropWhile ?p l = CHR ''='' # tl (dropWhile ?p l)"
    by (cases "dropWhile ?p l") simp_all
  then have "l = takeWhile ?p l @ CHR ''='' # tl (dropWhile ?p l)"
    using takeWhile_dropWhile_id [of ?p l] by simp
  moreover have "CHR ''='' \<notin> set (takeWhile ?p l)"
    using set_takeWhileD by fastforce
  ultimately show ?thesis by (simp add: split_first_def)
qed

text \<open>
  C5. Whenever \<^verbatim>\<open>job_post\<close> sends its request for a language that is a str, the form
  fields of that one request are these: if the str has a \<^verbatim>\<open>=\<close>, \<^verbatim>\<open>model\<close> is the
  part before the first \<^verbatim>\<open>=\<close> and \<^verbatim>\<open>version\<close> the part after it; if it has none,
  \<^verbatim>\<open>model\<close> is the whole str and there is no \<^verbatim>\<open>version\<close> field.
\<close>

theorem language_split_at_first_equals:
  assumes "job_post e c audio (PStr l) txt cb notif email s = (r, s')"
    and "sent (trace s') \<noteq> sent (trace s)"
  shows "\<exists>u data files params.
           sent (trace s') = sent (trace s) @ [HttpPost u data files params]
           \<and> (if CHR ''='' \<in> set l
              then \<exists>a b. l = a @ CHR ''='' # b \<and> CHR ''='' \<notin> set a
                     \<and> map_of data ''model'' = Some (PStr a)
                     \<and> map_of data ''version'' = Some (PStr b)
              else map_of data ''model'' = Some (PStr l) \<and> map_of data ''version'' = None)"
proof -
  from job_post_sent [OF assms] obtain u data0 files pre where
    data0: "model_data (PStr l) = Inr data0" and pre: "sent pre = []"
    and tr: "trace s' = trace s @ pre
                @ [HttpPost \<lparr>url_base = base_url c, url_user = u, url_job = None, url_tail = []\<rparr>
                     (data0
                      @ (if truthy notif
                         then (''notification'', notif)
                              # (if notif = PStr ''callback'' then [(''callback'', cb)] else [])
                         else [])
                      @ (if truthy email then [(''notification_email_address'', email)] else []))
                     files [(''auth_token'', api_token c)]]"
    by blast
  let ?data = "data0
                @ (if truthy notif
                   then (''notification'', notif)
                        # (if notif = PStr ''callback'' then [(''callback'', cb)] else [])
                   else [])
                @ (if truthy email then [(''notification_email_address'', email)] else [])"
  have sent: "sent (trace s')
                = sent (trace s) @ [HttpPost \<lparr>url_base = base_url c, url_user = u, url_job = None,
                                              url_tail = []\<rparr> ?data files
                                      [(''auth_token'', api_token c)]]"
    using tr pre by simp
  show ?thesis
  proof (cases "CHR ''='' \<in> set l")
    case True
    then have "data0 = [(''model'', PStr (fst (split_first l))),
                        (''version'', PStr (snd (split_first l)))]"
      using data0 by (simp add: model_data_def)
    then have "map_of ?data ''model'' = Some (PStr (fst (split_first l)))"
      and "map_of ?data ''version'' = Some (PStr (snd (split_first l)))"
      by simp_all
    then show ?thesis
      using sent True split_first_parts [OF True] by (metis (no_types, lifting))
  next
    case False
    then have "data0 = [(''model'', PStr l)]"
      using data0 by (simp add: model_data_def)
    then have "map_of ?data ''model'' = Some (PStr l)" and "map_of ?data ''version'' = None"
      by simp_all
    then show ?thesis
      using sent False by (metis (no_types, lifting))
  qed
qed

lemma sample_job_post_versioned:
  "job_post (sample_env sample_config []) sample_client (PStr ''a.mp3'') (PStr ''en-US=2=x'')
       PNone PNone PNone PNone init_state
     = (Inr (PStr ''42''),
        \<lparr>trace = [Open (PStr ''a.mp3''),
                  HttpPost \<lparr>url_base = ''https://api.speechmatics.com/v1.0'', url_user = ''u1'',
                             url_job = None, url_tail = []\<rparr>
                    [(''model'', PStr ''en-US''), (''version'', PStr ''2=x'')]
                    [(''data_file'', PStr ''a.mp3'')]
                    [(''auth_token'', PStr ''t1'')]],
          polls = 0\<rparr>)"
  by (simp add: job_post_def sample_env_def sample_client_def
        SpeechmaticsClient_def join_url_def bindE_py_open openable_def model_data_def
        split_first_def init_state_def loads_def getitem_def lift_def)

theorem language_split_at_first_equals_witness:
  "\<exists>u data files params.
     sent (trace (snd (job_post (sample_env sample_config []) sample_client (PStr ''a.mp3'')
                         (PStr ''en-US=2=x'') PNone PNone PNone PNone init_state)))
       = [HttpPost u data files params]
     \<and> map_of data ''model'' = Some (PStr ''en-US'')
     \<and> map_of data ''version'' = Some (PStr ''2=x'')"
proof -
  let ?post = "job_post (sample_env sample_config []) sample_client (PStr ''a.mp3'')
                 (PStr ''en-US=2=x'') PNone PNone PNone PNone init_state"
  have run: "?post = (fst ?post, snd ?post)"
    by simp
  have "sent (trace (snd ?post)) \<noteq> sent (trace init_state)"
    by (simp add: sample_job_post_versioned)
  from language_split_at_first_equals [OF run this]
  obtain u data files params where
    "sent (trace (snd ?post)) = sent (trace init_state) @ [HttpPost u data files params]"
    by blast
  then show ?thesis
    by (auto simp: sample_job_post_versioned)
qed


section \<open>The orchestrator\<close>





lemma start_ok:
  assumes sub: "submit e path s = (Inr (cfg, c, job_id), s0)"
    and uid: "api_user_id c = PStr u"
    and d0: "details_at e (polls s) = Some d0"
  shows "start e path s
           = (Inr (cfg, c, job_id, d0),
              s0\<lparr>trace := trace s0 @ [details_get c u job_id], polls := Suc (polls s)\<rparr>)"
proof -
  have "polls s0 = polls s"
    using submit_quiet [OF sub] by simp
  then show ?thesis
    using sub job_details_ok [OF uid, of e s0 d0 job_id] d0
    by (simp add: start_def bindE_def returnE_def)
qed

lemma get_output_gets:
  assumes "get_output e c job_id frmat job_type s = (r, s')"
  shows "\<exists>es. trace s' = trace s @ es \<and> sleeps es = []
           \<and> (\<forall>u\<in>set (get_urls es). url_job u = Some job_id)"
  using assms
  by (cases "api_user_id c")
     (auto simp: get_output_def join_url_def Let_def raise_def returnE_def split: if_splits)

lemma finish_gets:
  assumes "finish e cfg c job_id d s = (r, s')"
  shows "\<exists>es. trace s' = trace s @ es \<and> sleeps es = []
           \<and> (\<forall>u\<in>set (get_urls es). url_job u = Some job_id)"
  using assms get_output_gets [of e c job_id "format cfg" _ s r s']
  by (auto simp: finish_def bindE_lift raise_def Let_def split: sum.splits if_splits)

lemma get_output_ok:
  assumes "api_user_id c = PStr u" and "truthy frmat"
  shows "get_output e c job_id frmat job_type s
           = (if status_code (output_resp e) = 200 then Inr (body (output_resp e))
              else Inl (SpeechmaticsError (get_err_msg (status_code (output_resp e)))),
              s\<lparr>trace := trace s
                   @ [HttpGet \<lparr>url_base = base_url c, url_user = u, url_job = Some job_id,
                               url_tail = ''/'' @ job_type\<rparr>
                        ([(''auth_token'', api_token c)]
                         @ (if job_type = ''transcript'' then [(''format'', PStr ''txt'')] else [])
                         @ (if job_type = ''alignment'' then [(''tags'', PStr ''one_per_line'')]
                            else []))]\<rparr>)"
  using assms by (simp add: get_output_def join_url_def Let_def raise_def returnE_def)

lemma sleeps_details_get [simp]: "sleeps (details_get c u job_id # es) = sleeps es"
  by (simp add: details_get_def)

lemma sleeps_polls [simp]:
  "sleeps (concat (map (\<lambda>i. [Sleep (w i), details_get c u job_id]) ns)) = map w ns"
  by (induction ns) (simp_all add: details_get_def)











text \<open>
  C6. Once the job is submitted, every GET the run sends carries in its URL the job id
  that \<^verbatim>\<open>job_post\<close> returned, the job-details GETs and the output GET alike: in every
  run that comes to an end, with a result or with an exception, and, for a run that may
  never leave the loop, after any number of turns of it.
\<close>

theorem job_id_round_trip:
  assumes sub: "submit e path init_state = (Inr (cfg, c, job_id), s0)"
  shows "(transcript_audio e path = Some (r, s)
            \<longrightarrow> (\<forall>u\<in>set (get_urls (trace s)). url_job u = Some job_id))
         \<and> (job_details e c job_id s0 = (Inr d0, s1)
            \<longrightarrow> (\<forall>u\<in>set (get_urls (trace (poll_turns n e c job_id d0 s1))).
                   url_job u = Some job_id))"
proof -
  have quiet: "get_urls (trace s0) = []"
    using submit_quiet [OF sub] by auto
  have turns: "\<forall>u\<in>set (get_urls (trace (poll_turns n e c job_id d0 s1))).
                 url_job u = Some job_id"
    if det: "job_details e c job_id s0 = (Inr d0, s1)"
  proof -
    from job_details_gets [OF det] quiet
    have "\<forall>u\<in>set (get_urls (trace s1)). url_job u = Some job_id"
      by auto
    then show ?thesis
      using poll_turns_gets [of n e c job_id d0 s1] by auto
  qed
  have ended: "\<forall>u\<in>set (get_urls (trace s)). url_job u = Some job_id"
    if whole: "transcript_audio e path = Some (r, s)"
  proof -
    obtain r1 s1 where det: "job_details e c job_id s0 = (r1, s1)"
      by (cases "job_details e c job_id s0")
    from job_details_gets [OF det] quiet
    have s1: "\<forall>u\<in>set (get_urls (trace s1)). url_job u = Some job_id"
      by auto
    show ?thesis
    proof (cases r1)
      case (Inl err)
      then have "start e path init_state = (Inl err, s1)"
        using sub det by (simp add: start_def bindE_def)
      then have "s = s1"
        using whole by (simp add: transcript_audio_def)
      then show ?thesis using s1 by simp
    next
      case (Inr d0)
      then have st: "start e path init_state = (Inr (cfg, c, job_id, d0), s1)"
        using sub det by (simp add: start_def bindE_def returnE_def)
      then obtain out where loop: "poll_loop e c job_id d0 s1 = Some out"
        using whole by (auto simp: transcript_audio_def split: option.splits)
      from poll_loop_gets [OF loop] s1
      have s2: "\<forall>u\<in>set (get_urls (trace (snd out))). url_job u = Some job_id"
        by auto
      show ?thesis
      proof (cases "fst out")
        case (Inl err)
        then have "s = snd out"
          using whole st loop by (cases out) (simp add: transcript_audio_def)
        then show ?thesis using s2 by simp
      next
        case (Inr d)
        then have "finish e cfg c job_id d (snd out) = (r, s)"
          using whole st loop by (cases out) (simp add: transcript_audio_def)
        from finish_gets [OF this] s2 show ?thesis by auto
      qed
    qed
  qed
  show ?thesis
    using turns ended by blast
qed

section \<open>Runs in the sample world\<close>

lemma sample_submit:
  "submit (sample_env sample_config ds) (PStr ''a.mp3'') init_state
     = (Inr (sample_cfg, sample_client, PStr ''42''), sample_posted)"
proof -
  have cfg: "call_kwargs sample_config = Inr sample_cfg"
    by (simp add: call_kwargs_def sample_config_def param_names_def SpeechmaticsConfig_init_def
          arg_or_def sample_cfg_def)
  have post: "job_post (sample_env sample_config ds) sample_client (PStr ''a.mp3'')
                (PStr ''en-US'') PNone PNone PNone PNone s
                = (Inr (PStr ''42''),
                   s\<lparr>trace := trace s @ [Open (PStr ''a.mp3''),
                        HttpPost \<lparr>url_base = ''https://api.speechmatics.com/v1.0'',
                                   url_user = ''u1'', url_job = None, url_tail = []\<rparr>
                          [(''model'', PStr ''en-US'')] [(''data_file'', PStr ''a.mp3'')]
                          [(''auth_token'', PStr ''t1'')]]\<rparr>)" for s
    by (simp add: job_post_def sample_env_def sample_client_def SpeechmaticsClient_def
          join_url_def bindE_py_open openable_def model_data_def loads_def getitem_def lift_def)
  show ?thesis
    using post [of "init_state\<lparr>trace := trace init_state
                      @ [Open (PStr CONFIG_FILE), Close (PStr CONFIG_FILE)]\<rparr>"]
    by (simp add: submit_def from_json_result [OF sample_openable] cfg bindE_def lift_def
          returnE_def Let_def)
       (simp add: sample_cfg_def sample_client_def sample_posted_def init_state_def
          returnE_def)
qed

lemma sample_details_at:
  "details_at (sample_env conf ds) i = (if i < length ds then Some (ds ! i) else None)"
  by (simp add: details_at_def sample_env_def loads_def getitem_def)

lemma sample_user: "api_user_id sample_client = PStr ''u1''"
  by (simp add: sample_client_def SpeechmaticsClient_def)

lemma sample_start:
  assumes "ds \<noteq> []"
  shows "start (sample_env sample_config ds) (PStr ''a.mp3'') init_state
           = (Inr (sample_cfg, sample_client, PStr ''42'', ds ! 0), sample_polled [])"
  using start_ok [OF sample_submit sample_user, of ds "ds ! 0"] assms
  by (simp add: sample_details_at sample_polled_def sample_posted_def)

lemma sample_loop:
  assumes run: "\<And>i. i < n \<Longrightarrow> running (ds ! i) (ws ! i)"
    and len: "n < length ds" "length ws = n"
    and fin: "finished (ds ! n) st"
  shows "poll_loop (sample_env sample_config ds) sample_client (PStr ''42'') (ds ! 0)
           (sample_polled []) = Some (Inr (ds ! n), sample_polled ws)"
proof -
  have ws: "map ((!) ws) [0..<n] = ws"
    using len(2) map_nth by blast
  have "concat (map (\<lambda>i. [Sleep (ws ! i), details_get sample_client ''u1'' (PStr ''42'')]) [0..<n])
          = concat (map (\<lambda>w. [Sleep w, details_get sample_client ''u1'' (PStr ''42'')])
                      (map ((!) ws) [0..<n]))"
    by (simp add: comp_def)
  then have tr: "concat (map (\<lambda>i. [Sleep (ws ! i), details_get sample_client ''u1'' (PStr ''42'')])
                    [0..<n])
          = concat (map (\<lambda>w. [Sleep w, details_get sample_client ''u1'' (PStr ''42'')]) ws)"
    using ws by simp
  have "poll_loop (sample_env sample_config ds) sample_client (PStr ''42'') (ds ! 0)
          (sample_polled [])
          = Some (Inr (ds ! n),
              (sample_polled [])\<lparr>trace := trace (sample_polled [])
                  @ concat (map (\<lambda>i. [Sleep (ws ! i),
                                       details_get sample_client ''u1'' (PStr ''42'')]) [0..<n]),
                polls := Suc n\<rparr>)"
  proof (rule poll_loop_runs [where k = 0 and d = "\<lambda>i. ds ! i" and w = "\<lambda>i. ws ! i"
        and n = n and st = st])
    show "running (ds ! i) (ws ! i)" if "i < n" for i using run [OF that] .
    show "details_at (sample_env sample_config ds) i = Some (ds ! i)" if "i \<le> n" for i
      using that len by (simp add: sample_details_at)
  qed (use fin sample_user in \<open>simp_all add: sample_polled_def\<close>)
  then show ?thesis
    using tr len(2) by (simp add: sample_polled_def)
qed


lemma running_job_running: "0 \<le> w \<Longrightarrow> running (job_running w) w"
  by (simp add: running_def job_running_def getitem_def is_terminal_def terminal_statuses_def)

lemma finished_job_ended: "st \<in> set terminal_statuses \<Longrightarrow> finished (job_ended st jt) st"
  by (simp add: finished_def job_ended_def getitem_def)

lemma getitem_job_ended:
  "getitem (job_ended st jt) ''job_status'' = Inr (PStr st)"
  "getitem (job_ended st jt) ''job_type'' = Inr (PStr jt)"
  by (simp_all add: job_ended_def getitem_def)

lemma sample_run_transcribed:
  assumes run: "\<And>i. i < n \<Longrightarrow> running (ds ! i) (ws ! i)"
    and len: "n < length ds" "length ws = n"
    and fin: "ds ! n = job_ended ''done'' ''transcription''"
  shows "transcript_audio (sample_env sample_config ds) (PStr ''a.mp3'')
           = Some (Inr ''hello world'', sample_transcribed ws)"
proof -
  let ?e = "sample_env sample_config ds"
  have start: "start ?e (PStr ''a.mp3'') init_state
                 = (Inr (sample_cfg, sample_client, PStr ''42'', ds ! 0), sample_polled [])"
    using len(1) by (intro sample_start) auto
  have loop: "poll_loop ?e sample_client (PStr ''42'') (ds ! 0) (sample_polled [])
                = Some (Inr (ds ! n), sample_polled ws)"
    using run len fin
    by (intro sample_loop [where st = "''done''"])
       (simp_all add: finished_job_ended terminal_statuses_def)
  have "finish ?e sample_cfg sample_client (PStr ''42'') (ds ! n) (sample_polled ws)
          = get_output ?e sample_client (PStr ''42'') (PStr ''txt'') ''transcript''
              (sample_polled ws)"
    by (simp add: finish_def fin getitem_job_ended sample_cfg_def)
  also have "\<dots> = (Inr ''hello world'', sample_transcribed ws)"
    using get_output_ok [OF sample_user, of "PStr ''txt''" ?e "PStr ''42''" "''transcript''"
        "sample_polled ws"]
    by (simp add: sample_env_def sample_client_def SpeechmaticsClient_def
          sample_transcribed_def)
  finally show ?thesis
    using start loop by (simp add: transcript_audio_def)
qed





theorem job_id_round_trip_witness:
  "transcript_audio
     (sample_env sample_config [job_running 3, job_ended ''done'' ''transcription''])
     (PStr ''a.mp3'')
     = Some (Inr ''hello world'', sample_transcribed [3])
   \<and> map url_job (get_urls (trace (sample_transcribed [3])))
       = [Some (PStr ''42''), Some (PStr ''42''), Some (PStr ''42'')]"
proof -
  let ?ds = "[job_running 3, job_ended ''done'' ''transcription'']"
  let ?e = "sample_env sample_config ?ds"
  have whole: "transcript_audio ?e (PStr ''a.mp3'')
                 = Some (Inr ''hello world'', sample_transcribed [3])"
    by (rule sample_run_transcribed [where n = 1]) (simp_all add: running_job_running)
  obtain u1 u2 u3 where urls: "get_urls (trace (sample_transcribed [3])) = [u1, u2, u3]"
    by (simp add: sample_transcribed_def sample_polled_def sample_posted_def details_get_def)
  have "\<forall>u\<in>set (get_urls (trace (sample_transcribed [3]))). url_job u = Some (PStr ''42'')"
    using job_id_round_trip [OF sample_submit, where r = "Inr ''hello world''"
        and s = "sample_transcribed [3]"] whole
    by simp
  then show ?thesis
    using whole urls by simp
qed

text \<open>
  C9, on the sample world. \<^verbatim>\<open>job_post\<close> returns the job id with the handle of the audio
  file still open; when the text file cannot be opened it raises \<^verbatim>\<open>IOError\<close> with the
  handle of the audio file still open. \<^verbatim>\<open>from_json\<close>, which opens its file in a
  \<^verbatim>\<open>with\<close> block, leaves none open.
\<close>

theorem job_post_leaves_handles_open:
  "job_post (sample_env sample_config []) sample_client (PStr ''a.mp3'') (PStr ''en-US'')
       PNone PNone PNone PNone init_state
     = (Inr (PStr ''42''), sample_posted\<lparr>trace := drop 2 (trace sample_posted)\<rparr>)
   \<and> open_handles (drop 2 (trace sample_posted)) = [PStr ''a.mp3'']
   \<and> job_post (sample_env sample_config []) sample_client (PStr ''a.mp3'') (PStr ''en-US'')
       (PStr ''words.txt'') PNone PNone PNone init_state
     = (Inl IOError, \<lparr>trace = [Open (PStr ''a.mp3'')], polls = 0\<rparr>)
   \<and> open_handles [Open (PStr ''a.mp3'')] = [PStr ''a.mp3'']
   \<and> open_handles (trace (snd (from_json (sample_env sample_config []) (PStr CONFIG_FILE)
                                    init_state))) = []"
  by (simp add: job_post_def sample_env_def sample_client_def SpeechmaticsClient_def
        join_url_def bindE_py_open openable_def model_data_def loads_def getitem_def lift_def
        sample_posted_def init_state_def open_handles_def from_json_def CONFIG_FILE_def)

end
